theory Spec2Isabelle
  imports Complex_Main "HOL-Library.Char_ord" "HOL-Library.List_Lexorder"
begin

section \<open>Conventions\<close>

text \<open>
  The services of PerpSpot are Python classes over floats, dicts and lists. Python floats
  are modelled by \<^typ>\<open>real\<close>: every property below is about the arithmetic the code
  writes down (comparisons, clamps, weighted sums), not about rounding. An
  \<open>Optional[float]\<close> argument is a \<^typ>\<open>real option\<close>, and the Python idiom
  \<open>x or d\<close> (take \<open>d\<close> when \<open>x\<close> is \<open>None\<close> or falsy, that is zero) is \<open>py_or\<close>.
\<close>

definition py_or :: "real option \<Rightarrow> real \<Rightarrow> real" where
  "py_or x d = (case x of None \<Rightarrow> d | Some v \<Rightarrow> if v = 0 then d else v)"

text \<open>\<open>str.upper()\<close> on the ASCII letters, which is all the token symbols use.\<close>

definition upper_char :: "char \<Rightarrow> char" where
  "upper_char c =
     (if (97::nat) \<le> of_char c \<and> of_char c \<le> (122::nat)
      then char_of (of_char c - (32::nat)) else c)"

definition upper :: "string \<Rightarrow> string" where
  "upper s = map upper_char s"

section \<open>The slippage model\<close>

text \<open>Source: \<^verbatim>\<open>services/slippage_model.py\<close>, class \<open>SlippageModel\<close>.\<close>

subsection \<open>Configuration\<close>

record SlippageConfig =
  k_sqrt :: real
  a_coeff :: real
  b_power :: real
  decay_rate :: real
  min_slippage_bps :: real
  max_slippage_bps :: real

text \<open>The defaults of the dataclass \<open>SlippageConfig\<close>.\<close>

definition default_config :: SlippageConfig where
  "default_config =
     \<lparr>k_sqrt = 7 / 10, a_coeff = 3 / 10, b_power = 6 / 10, decay_rate = 8 / 10,
      min_slippage_bps = 1 / 2, max_slippage_bps = 500\<rparr>"

record token_config =
  typical_adv_usd :: real
  depth_multiplier :: real
  volatility_factor :: real

text \<open>
  \<open>_load_token_configs\<close>: the per-token table. Every entry has all three fields, so the
  \<open>.get(field, default)\<close> calls of the estimators never take their default.
\<close>

definition token_configs :: "string \<Rightarrow> token_config option" where
  "token_configs t =
     (if t = ''SOL'' then
        Some \<lparr>typical_adv_usd = 100000000, depth_multiplier = 1, volatility_factor = 12 / 10\<rparr>
      else if t = ''ETH'' then
        Some \<lparr>typical_adv_usd = 500000000, depth_multiplier = 8 / 10, volatility_factor = 1\<rparr>
      else if t = ''BTC'' then
        Some \<lparr>typical_adv_usd = 1000000000, depth_multiplier = 6 / 10, volatility_factor = 9 / 10\<rparr>
      else if t = ''USDC'' then
        Some \<lparr>typical_adv_usd = 200000000, depth_multiplier = 3 / 10, volatility_factor = 1 / 10\<rparr>
      else if t = ''USDT'' then
        Some \<lparr>typical_adv_usd = 300000000, depth_multiplier = 3 / 10, volatility_factor = 1 / 10\<rparr>
      else None)"

text \<open>
  \<open>if token and token.upper() in self.token_configs\<close>: the entry of the table that
  applies to an optional token symbol (\<open>None\<close> and the empty string are falsy).
\<close>

definition token_config_for :: "string option \<Rightarrow> token_config option" where
  "token_config_for token =
     (case token of
        None \<Rightarrow> None
      | Some t \<Rightarrow> if t = [] then None else token_configs (upper t))"

subsection \<open>Square-root model\<close>

text \<open>
  \<open>SlippageModel.estimate_slippage_by_notional\<close>. The body runs inside \<open>try\<close>; the one
  exception the arithmetic can raise is \<open>math.sqrt\<close> of a negative participation rate
  (\<open>ValueError\<close>), and the handler returns the fallback 0.005.
\<close>

definition estimate_slippage_by_notional ::
  "SlippageConfig \<Rightarrow> real \<Rightarrow> real \<Rightarrow> real option \<Rightarrow> string option \<Rightarrow> real" where
  "estimate_slippage_by_notional cfg notional_usd adv_usd k token =
     (let k_effective = py_or k (k_sqrt cfg);
          tc = token_config_for token;
          k_effective = (case tc of None \<Rightarrow> k_effective
                         | Some c \<Rightarrow> k_effective * volatility_factor c);
          adv_usd = (case tc of None \<Rightarrow> adv_usd
                     | Some c \<Rightarrow> max adv_usd (typical_adv_usd c));
          adv_usd = (if adv_usd \<le> 0 then 10000000 else adv_usd);
          participation_rate = notional_usd / adv_usd
      in if participation_rate < 0 then 5 / 1000
         else
           let slippage_pct = k_effective * sqrt participation_rate;
               slippage_bps = slippage_pct * 10000;
               slippage_bps =
                 (if slippage_bps < min_slippage_bps cfg
                  then max slippage_bps (min_slippage_bps cfg)
                  else if slippage_bps > max_slippage_bps cfg
                  then min slippage_bps (max_slippage_bps cfg)
                  else slippage_bps)
           in slippage_bps / 10000)"


subsection \<open>Power-law (Almgren-Chriss) model\<close>



subsection \<open>Depth-walk estimator\<close>

type_synonym level = "real \<times> real"







text \<open>
  The loop over the sorted levels, with its three accumulators. \<open>break\<close> leaves them
  as they are.
\<close>

fun walk_levels :: "level list \<Rightarrow> real \<Rightarrow> real \<Rightarrow> real \<Rightarrow> real \<times> real \<times> real" where
  "walk_levels [] remaining_size total_cost total_executed =
     (remaining_size, total_cost, total_executed)"
| "walk_levels ((price, available_size) # rest) remaining_size total_cost total_executed =
     (if remaining_size \<le> 0 then (remaining_size, total_cost, total_executed)
      else
        let executed_at_level = min remaining_size available_size
        in walk_levels rest (remaining_size - executed_at_level)
             (total_cost + executed_at_level * price) (total_executed + executed_at_level))"

text \<open>
  The trace of the same loop: for every level it visits, the price, the available size
  and \<open>executed_at_level\<close>. It is what "per-level filled size" and "levels consumed"
  refer to; \<open>walk_levels_fills\<close> below ties it to the accumulators.
\<close>

fun level_fills :: "level list \<Rightarrow> real \<Rightarrow> (real \<times> real \<times> real) list" where
  "level_fills [] remaining_size = []"
| "level_fills ((price, available_size) # rest) remaining_size =
     (if remaining_size \<le> 0 then []
      else
        let executed_at_level = min remaining_size available_size
        in (price, available_size, executed_at_level)
             # level_fills rest (remaining_size - executed_at_level))"

definition fill_price :: "real \<times> real \<times> real \<Rightarrow> real" where
  "fill_price f = fst f"





subsection \<open>Combined estimate\<close>




section \<open>Python values and dicts\<close>

text \<open>
  The values the services keep in untyped dicts: \<open>None\<close>, a number or a string. A dict
  is an association list in insertion order with distinct keys; \<open>d.get(k, default)\<close> is
  \<open>dict_get\<close>, and the assignment \<open>d[k] = v\<close> replaces the value of a key that is present
  where it stands and appends a new key at the end, as Python's dicts do.
\<close>

datatype pyval = PNone | PNum real | PStr string

type_synonym pydict = "(string \<times> pyval) list"

definition dict_get :: "pydict \<Rightarrow> string \<Rightarrow> pyval \<Rightarrow> pyval" where
  "dict_get d key dflt = (case map_of d key of None \<Rightarrow> dflt | Some v \<Rightarrow> v)"

definition pyval_truthy :: "pyval \<Rightarrow> bool" where
  "pyval_truthy v = (case v of PNone \<Rightarrow> False | PNum r \<Rightarrow> r \<noteq> 0 | PStr s \<Rightarrow> s \<noteq> [])"

fun dict_set :: "(string \<times> 'v) list \<Rightarrow> string \<Rightarrow> 'v \<Rightarrow> (string \<times> 'v) list" where
  "dict_set [] key v = [(key, v)]"
| "dict_set ((key', v') # rest) key v =
     (if key' = key then (key, v) # rest else (key', v') # dict_set rest key v)"

section \<open>The arbitrage detector\<close>

text \<open>Source: \<^verbatim>\<open>services/arbitrage_service.py\<close>, class \<open>ArbitrageService\<close>.\<close>

text \<open>
  \<open>self.price_data[token]\<close> is a dict with the venue dicts under \<open>'hyperliquid'\<close> and
  \<open>'jupiter'\<close> (and a \<open>'last_updated'\<close> stamp, which the detector does not read).
\<close>

record token_data =
  hyperliquid :: "pydict option"
  jupiter :: "pydict option"

record potential_profit =
  gross_profit :: real
  total_fees :: real
  net_profit :: real
  roi_pct :: real
  margin_required :: real

text \<open>
  An entry of \<open>self.arbitrage_opportunities\<close>. The fields carry the prefix \<open>opp\<close>; the
  entries \<open>'liquidity_score'\<close> and \<open>'timestamp'\<close>, which no property here reads, are left
  out (\<open>_calculate_liquidity_score\<close> catches its own exceptions, so it cannot stop an
  entry from being stored).
\<close>

record opportunity =
  opp_token :: string
  opp_spot_price :: real
  opp_perp_price :: real
  opp_spread_pct :: real
  opp_spread_abs :: real
  opp_strategy :: string
  opp_direction :: string
  opp_potential_profit :: potential_profit
  opp_funding_rate :: pyval

record arb_state =
  price_data :: "string \<Rightarrow> token_data option"
  arbitrage_opportunities :: "(string \<times> opportunity) list"
  min_spread_threshold :: real
  supported_tokens :: "string list"

text \<open>The configuration set by \<open>ArbitrageService.__init__\<close>.\<close>

definition default_supported_tokens :: "string list" where
  "default_supported_tokens =
     [''SOL'', ''ETH'', ''USDC'', ''USDT'', ''JUP'', ''BONK'', ''ORCA'', ''HL'']"

definition default_min_spread_threshold :: real where
  "default_min_spread_threshold = 3 / 10"

text \<open>\<open>_calculate_potential_profit\<close>; its arithmetic raises nothing.\<close>

definition calculate_potential_profit :: "string \<Rightarrow> real \<Rightarrow> real \<Rightarrow> potential_profit" where
  "calculate_potential_profit tok spread notional =
     (let jupiter_fee = notional * (3 / 1000);
          hyperliquid_fee = notional * (2 / 10000);
          gross = (spread / 100) * notional;
          fees = jupiter_fee + hyperliquid_fee;
          net = gross - fees;
          margin = notional * (1 / 10);
          roi = (if margin > 0 then (net / margin) * 100 else 0)
      in \<lparr>gross_profit = gross, total_fees = fees, net_profit = net, roi_pct = roi,
          margin_required = margin\<rparr>)"

text \<open>
  The two legs as the detector reads them: \<open>hl_data.get('mark_price', 0)\<close> and
  \<open>jupiter_data.get('spot_price', 0) or jupiter_data.get('price', 0)\<close>.
\<close>

definition perp_price_of :: "pydict \<Rightarrow> pyval" where
  "perp_price_of hl_data = dict_get hl_data ''mark_price'' (PNum 0)"

definition spot_price_of :: "pydict \<Rightarrow> pyval" where
  "spot_price_of jupiter_data =
     (let v = dict_get jupiter_data ''spot_price'' (PNum 0)
      in if pyval_truthy v then v else dict_get jupiter_data ''price'' (PNum 0))"

text \<open>
  The body of the loop of \<open>_calculate_arbitrage_opportunities\<close> for one token: the entry
  it stores, or \<open>None\<close> when it stores none (a \<open>continue\<close>, a failed test, or the
  \<open>TypeError\<close> of comparing a non-number with 0, which the loop's handler logs).
\<close>

definition opportunity_for :: "arb_state \<Rightarrow> string \<Rightarrow> opportunity option" where
  "opportunity_for st tok =
     (case price_data st tok of
        None \<Rightarrow> None
      | Some td \<Rightarrow>
          let hl_data = (case hyperliquid td of None \<Rightarrow> [] | Some d \<Rightarrow> d);
              jupiter_data = (case jupiter td of None \<Rightarrow> [] | Some d \<Rightarrow> d)
          in if hl_data = [] \<or> jupiter_data = [] then None
             else
               case (perp_price_of hl_data, spot_price_of jupiter_data) of
                 (PNum perp, PNum spot) \<Rightarrow>
                   if perp > 0 \<and> spot > 0 then
                     let spread = ((perp - spot) / spot) * 100
                     in if \<bar>spread\<bar> \<ge> min_spread_threshold st then
                          Some \<lparr>opp_token = tok, opp_spot_price = spot, opp_perp_price = perp,
                                opp_spread_pct = spread, opp_spread_abs = \<bar>spread\<bar>,
                                opp_strategy = (if spread > 0 then ''long_spot_short_perp''
                                                else ''short_spot_long_perp''),
                                opp_direction = (if spread > 0 then ''Perp overpriced''
                                                 else ''Spot overpriced''),
                                opp_potential_profit =
                                  calculate_potential_profit tok \<bar>spread\<bar> 1000,
                                opp_funding_rate = dict_get hl_data ''funding_rate'' (PNum 0)\<rparr>
                        else None
                   else None
               | _ \<Rightarrow> None)"

fun calculate_loop ::
  "arb_state \<Rightarrow> string list \<Rightarrow> (string \<times> opportunity) list \<Rightarrow> (string \<times> opportunity) list"
  where
  "calculate_loop st [] opps = opps"
| "calculate_loop st (tok # rest) opps =
     calculate_loop st rest
       (case opportunity_for st tok of None \<Rightarrow> opps | Some opp \<Rightarrow> dict_set opps tok opp)"

text \<open>\<open>ArbitrageService._calculate_arbitrage_opportunities\<close>.\<close>

definition calculate_arbitrage_opportunities :: "arb_state \<Rightarrow> arb_state" where
  "calculate_arbitrage_opportunities st =
     st\<lparr>arbitrage_opportunities := calculate_loop st (supported_tokens st) []\<rparr>"

text \<open>
  \<open>ArbitrageService.get_arbitrage_opportunities\<close>. \<open>list.sort(key=..., reverse=True)\<close> is
  stable: it sorts descending and keeps equal keys in their original order.
\<close>

definition get_arbitrage_opportunities :: "arb_state \<Rightarrow> real option \<Rightarrow> opportunity list" where
  "get_arbitrage_opportunities st min_spread =
     (let opportunities = map snd (arbitrage_opportunities st);
          opportunities =
            (case min_spread of
               None \<Rightarrow> opportunities
             | Some m \<Rightarrow> filter (\<lambda>opp. opp_spread_abs opp \<ge> m) opportunities)
      in rev (sort_key opp_spread_abs (rev opportunities)))"

text \<open>
  "Ties broken by token name": among entries of equal absolute spread, an earlier one
  never has the greater token name (Python compares strings by code point, which is the
  lexicographic order on \<^typ>\<open>string\<close>).
\<close>

fun ties_by_token_name :: "opportunity list \<Rightarrow> bool" where
  "ties_by_token_name [] = True"
| "ties_by_token_name (x # xs) =
     (list_all (\<lambda>y. opp_spread_abs y = opp_spread_abs x \<longrightarrow> opp_token x \<le> opp_token y) xs
      \<and> ties_by_token_name xs)"


definition tie_state :: arb_state where
  "tie_state =
     \<lparr>price_data = (\<lambda>t. if t = ''SOL''
                         then Some \<lparr>hyperliquid = Some [(''mark_price'', PNum (1005 / 10))],
                                    jupiter = Some [(''spot_price'', PNum 100)]\<rparr>
                         else if t = ''ETH''
                         then Some \<lparr>hyperliquid = Some [(''mark_price'', PNum 201)],
                                    jupiter = Some [(''spot_price'', PNum 200)]\<rparr>
                         else None),
      arbitrage_opportunities = [],
      min_spread_threshold = default_min_spread_threshold,
      supported_tokens = default_supported_tokens\<rparr>"

section \<open>Execution templates and the Monte Carlo entry point\<close>

text \<open>Source: \<^verbatim>\<open>services/bridge_service.py\<close>, class \<open>BridgeArbitrageService\<close>.\<close>

text \<open>
  The dataclass \<open>ExecutionTemplate\<close>. A dataclass does not check the types of its
  fields, so each holds whatever value the caller's dict gave.
\<close>

record ExecutionTemplate =
  name :: pyval
  token_pair :: pyval
  trade_size :: pyval
  max_latency :: pyval
  min_spread_bps :: pyval
  funding_threshold :: pyval
  preferred_direction :: pyval
  risk_multiplier :: pyval
  created_at :: pyval

definition required_fields :: "string list" where
  "required_fields =
     [''name'', ''token_pair'', ''trade_size'', ''max_latency'', ''min_spread_bps'',
      ''funding_threshold'', ''preferred_direction'']"

definition template_fields :: "string list" where
  "template_fields = required_fields @ [''risk_multiplier'', ''created_at'']"

text \<open>
  \<open>ExecutionTemplate(**template_data)\<close> at clock reading \<open>now\<close>: \<open>None\<close> is the
  \<open>TypeError\<close> for a missing required field or an unexpected keyword;
  \<open>__post_init__\<close> stamps \<open>created_at\<close> when it is \<open>None\<close>.
\<close>

definition make_template :: "real \<Rightarrow> pydict \<Rightarrow> ExecutionTemplate option" where
  "make_template now template_data =
     (if list_all (\<lambda>key. map_of template_data key \<noteq> None) required_fields
         \<and> list_all (\<lambda>kv. fst kv \<in> set template_fields) template_data
      then
        Some \<lparr>name = dict_get template_data ''name'' PNone,
              token_pair = dict_get template_data ''token_pair'' PNone,
              trade_size = dict_get template_data ''trade_size'' PNone,
              max_latency = dict_get template_data ''max_latency'' PNone,
              min_spread_bps = dict_get template_data ''min_spread_bps'' PNone,
              funding_threshold = dict_get template_data ''funding_threshold'' PNone,
              preferred_direction = dict_get template_data ''preferred_direction'' PNone,
              risk_multiplier = dict_get template_data ''risk_multiplier'' (PNum 1),
              created_at =
                (case dict_get template_data ''created_at'' PNone of
                   PNone \<Rightarrow> PNum now
                 | v \<Rightarrow> v)\<rparr>
      else None)"

text \<open>\<open>_load_default_templates\<close>: the initial store, built at clock reading \<open>now\<close>.\<close>

definition default_templates :: "real \<Rightarrow> ExecutionTemplate list" where
  "default_templates now =
     [\<lparr>name = PStr ''SOL Scalping'', token_pair = PStr ''SOL-USDC'', trade_size = PNum 1000,
       max_latency = PNum 2, min_spread_bps = PNum 30, funding_threshold = PNum (- 1 / 100),
       preferred_direction = PStr ''auto'', risk_multiplier = PNum 1, created_at = PNum now\<rparr>,
      \<lparr>name = PStr ''ETH Conservative'', token_pair = PStr ''ETH-USDC'', trade_size = PNum 2000,
       max_latency = PNum 3, min_spread_bps = PNum 50, funding_threshold = PNum (- 5 / 1000),
       preferred_direction = PStr ''long_perp'', risk_multiplier = PNum 1, created_at = PNum now\<rparr>,
      \<lparr>name = PStr ''BTC Large Size'', token_pair = PStr ''BTC-USDC'', trade_size = PNum 5000,
       max_latency = PNum 4, min_spread_bps = PNum 40, funding_threshold = PNum (- 8 / 1000),
       preferred_direction = PStr ''auto'', risk_multiplier = PNum (8 / 10),
       created_at = PNum now\<rparr>]"

text \<open>
  \<open>save_execution_template\<close> and \<open>delete_execution_template\<close> on the list
  \<open>self.execution_templates\<close>; each returns its boolean and the new list.
\<close>

definition save_execution_template ::
  "real \<Rightarrow> ExecutionTemplate list \<Rightarrow> pydict \<Rightarrow> bool \<times> ExecutionTemplate list" where
  "save_execution_template now execution_templates template_data =
     (case make_template now template_data of
        Some template \<Rightarrow> (True, execution_templates @ [template])
      | None \<Rightarrow> (False, execution_templates))"

definition delete_execution_template ::
  "ExecutionTemplate list \<Rightarrow> pyval \<Rightarrow> bool \<times> ExecutionTemplate list" where
  "delete_execution_template execution_templates template_name =
     (True, filter (\<lambda>t. name t \<noteq> template_name) execution_templates)"

text \<open>A sequence of store operations; a save carries the clock reading it runs at.\<close>

datatype template_op = Save real pydict | Delete pyval

fun apply_template_op :: "ExecutionTemplate list \<Rightarrow> template_op \<Rightarrow> ExecutionTemplate list" where
  "apply_template_op ts (Save now template_data) = snd (save_execution_template now ts template_data)"
| "apply_template_op ts (Delete template_name) = snd (delete_execution_template ts template_name)"

definition apply_template_ops ::
  "ExecutionTemplate list \<Rightarrow> template_op list \<Rightarrow> ExecutionTemplate list" where
  "apply_template_ops ts ops = foldl apply_template_op ts ops"

text \<open>
  The sequences on which names stay unique: every save that succeeds brings a name that
  no stored template has at that moment.
\<close>

fun saves_fresh :: "ExecutionTemplate list \<Rightarrow> template_op list \<Rightarrow> bool" where
  "saves_fresh ts [] = True"
| "saves_fresh ts (Delete template_name # ops) =
     saves_fresh (apply_template_op ts (Delete template_name)) ops"
| "saves_fresh ts (Save now template_data # ops) =
     ((case make_template now template_data of
         None \<Rightarrow> True
       | Some template \<Rightarrow> name template \<notin> name ` set ts)
      \<and> saves_fresh (apply_template_op ts (Save now template_data)) ops)"

text \<open>
  Two dicts as a caller of \<open>save_execution_template\<close> may send them: one under the name
  of a default template, one under a new name.
\<close>

definition duplicate_template_data :: pydict where
  "duplicate_template_data =
     [(''name'', PStr ''SOL Scalping''), (''token_pair'', PStr ''SOL-USDC''),
      (''trade_size'', PNum 500), (''max_latency'', PNum 1), (''min_spread_bps'', PNum 20),
      (''funding_threshold'', PNum 0), (''preferred_direction'', PStr ''auto'')]"

definition fresh_template_data :: pydict where
  "fresh_template_data =
     [(''name'', PStr ''JUP Momentum''), (''token_pair'', PStr ''JUP-USDC''),
      (''trade_size'', PNum 500), (''max_latency'', PNum 1), (''min_spread_bps'', PNum 20),
      (''funding_threshold'', PNum 0), (''preferred_direction'', PStr ''auto'')]"

text \<open>
  \<open>simulate_bridge_execution_monte_carlo\<close>. The collaborator \<open>self.arbitrage_service\<close> is
  an optional object of which only \<open>get_price_data(token)\<close> is called; it is modelled by
  that function, whose answer is a dict with optional venue dicts, \<open>None\<close> standing for
  an empty (falsy) dict.
\<close>

record price_snapshot =
  ps_jupiter :: "pydict option"
  ps_hyperliquid :: "pydict option"
  ps_fallback :: "pydict option"

definition py_or_val :: "real option \<Rightarrow> pyval \<Rightarrow> pyval" where
  "py_or_val x v = (case x of None \<Rightarrow> v | Some r \<Rightarrow> if r = 0 then v else PNum r)"

definition opt_val :: "real option \<Rightarrow> pyval" where
  "opt_val x = (case x of None \<Rightarrow> PNone | Some r \<Rightarrow> PNum r)"

definition opt_dict :: "pydict option \<Rightarrow> pydict" where
  "opt_dict d = (case d of None \<Rightarrow> [] | Some kv \<Rightarrow> kv)"

text \<open>
  "Get current market data if not provided": the three values after the block, which
  runs when one of the overrides is \<open>None\<close>. Without a service the overrides stay as they
  are, \<open>None\<close> included.
\<close>

definition resolve_market_data ::
  "(string \<Rightarrow> price_snapshot option) option \<Rightarrow> string \<Rightarrow> real option \<Rightarrow> real option \<Rightarrow> real option
     \<Rightarrow> pyval \<times> pyval \<times> pyval" where
  "resolve_market_data arbitrage_service token jupiter_price hyperliquid_price funding_rate =
     (if jupiter_price = None \<or> hyperliquid_price = None \<or> funding_rate = None then
        (case arbitrage_service of
           None \<Rightarrow> (opt_val jupiter_price, opt_val hyperliquid_price, opt_val funding_rate)
         | Some get_price_data \<Rightarrow>
             (case get_price_data token of
                Some snapshot \<Rightarrow>
                  let jupiter_data = opt_dict (ps_jupiter snapshot);
                      hyperliquid_data = opt_dict (ps_hyperliquid snapshot);
                      fallback_data = opt_dict (ps_fallback snapshot)
                  in (py_or_val jupiter_price
                        (dict_get jupiter_data ''spot'' (dict_get fallback_data ''price'' (PNum 100))),
                      py_or_val hyperliquid_price
                        (dict_get hyperliquid_data ''mark''
                           (dict_get fallback_data ''price'' (PNum 101))),
                      py_or_val funding_rate (dict_get hyperliquid_data ''funding_rate'' (PNum 0)))
              | None \<Rightarrow>
                  (py_or_val jupiter_price (PNum 100), py_or_val hyperliquid_price (PNum 101),
                   py_or_val funding_rate (PNum (1 / 10000)))))
      else (opt_val jupiter_price, opt_val hyperliquid_price, opt_val funding_rate))"

text \<open>
  The two payloads of the function: the handler's error dict, with the sample count under
  \<open>'n_sims'\<close>, and the statistics dict, with it under \<open>'n_simulations'\<close>. The statistics
  themselves are functions of the random draws and are not modelled; of \<open>sample_draws\<close>
  the length is kept.
\<close>

record mc_error =
  err_token :: string
  err_notional_usd :: real
  err_n_sims :: int

record mc_stats =
  n_simulations :: int
  n_sample_draws :: int

definition is_number :: "pyval \<Rightarrow> bool" where
  "is_number v = (case v of PNum _ \<Rightarrow> True | _ \<Rightarrow> False)"

text \<open>
  The control flow of the function. Everything runs inside \<open>try\<close>, and every exception
  ends in the one handler:
  \<^item> a template name that is given: \<open>self.get_execution_template\<close> is not defined in the
    class (\<open>AttributeError\<close>);
  \<^item> a price that is not a number (\<open>TypeError\<close> in the subtraction) or a zero Jupiter
    price (\<open>ZeroDivisionError\<close>) in \<open>spread_bps\<close>;
  \<^item> a negative sample count: \<open>np.zeros\<close> raises \<open>ValueError\<close>;
  \<^item> a funding rate that is not a number, in the first draw (\<open>abs(funding_rate)\<close>);
  \<^item> a sample count of zero: the loop does not run and \<open>np.min\<close> of the empty array
    raises \<open>ValueError\<close>.
  The logarithm of a non-positive notional is a numpy warning, not an exception.
\<close>

definition simulate_bridge_execution_monte_carlo ::
  "(string \<Rightarrow> price_snapshot option) option \<Rightarrow> string \<Rightarrow> real \<Rightarrow> string option \<Rightarrow> int
     \<Rightarrow> real option \<Rightarrow> real option \<Rightarrow> real option \<Rightarrow> mc_error + mc_stats" where
  "simulate_bridge_execution_monte_carlo arbitrage_service token notional_usd template n_sims
       jupiter_price hyperliquid_price funding_rate =
     (let n_sims = min n_sims 5000;
          handler = Inl \<lparr>err_token = token, err_notional_usd = notional_usd, err_n_sims = n_sims\<rparr>
      in case resolve_market_data arbitrage_service token jupiter_price hyperliquid_price
                funding_rate of
           (jupiter_price, hyperliquid_price, funding_rate) \<Rightarrow>
             if template \<noteq> None \<and> template \<noteq> Some [] then handler
             else if \<not> (is_number jupiter_price \<and> is_number hyperliquid_price) then handler
             else if jupiter_price = PNum 0 then handler
             else if n_sims < 0 then handler
             else if 0 < n_sims \<and> \<not> is_number funding_rate then handler
             else if n_sims = 0 then handler
             else Inr \<lparr>n_simulations = n_sims, n_sample_draws = min 10 n_sims\<rparr>)"

section \<open>The cache\<close>

text \<open>Source: \<^verbatim>\<open>services/cache_service.py\<close>, class \<open>CacheService\<close>.\<close>

text \<open>
  The state of a \<open>CacheService\<close>: the local \<open>TTLCache\<close> and the Redis database, each a map
  from keys to a value and the instant it expires, and the flag \<open>redis_connected\<close> set
  by the constructor. Redis holds the JSON text of a value; \<open>json.loads\<close> of
  \<open>json.dumps\<close> gives back a value of \<^typ>\<open>pyval\<close>, so the value itself is kept. The
  result of \<open>get\<close> is a \<^typ>\<open>pyval\<close>, \<open>PNone\<close> being Python's \<open>None\<close>.
\<close>

type_synonym tier = "string \<Rightarrow> (pyval \<times> real) option"

record cache_state =
  local_cache :: tier
  redis_store :: tier
  redis_connected :: bool
  default_ttl :: real

text \<open>
  \<open>CacheService.__init__\<close> with the default TTL of 7 seconds: an empty local tier, the
  database as the server holds it, and \<open>redis_connected\<close> by the outcome of the ping.
\<close>

definition init_cache :: "bool \<Rightarrow> tier \<Rightarrow> cache_state" where
  "init_cache ping_ok remote =
     \<lparr>local_cache = (\<lambda>key. None), redis_store = remote, redis_connected = ping_ok,
      default_ttl = 7\<rparr>"

definition live :: "tier \<Rightarrow> real \<Rightarrow> string \<Rightarrow> pyval" where
  "live t now key =
     (case t key of
        None \<Rightarrow> PNone
      | Some (v, expires_at) \<Rightarrow> if now < expires_at then v else PNone)"

definition in_tier :: "tier \<Rightarrow> real \<Rightarrow> string \<Rightarrow> bool" where
  "in_tier t now key =
     (case t key of None \<Rightarrow> False | Some (v, expires_at) \<Rightarrow> now < expires_at)"

text \<open>
  \<open>CacheService.get\<close> at instant \<open>now\<close>; \<open>redis_up\<close> says whether the Redis command of
  this call succeeds (a \<open>RedisError\<close> is caught and gives \<open>None\<close>).
\<close>

definition CacheService_get :: "cache_state \<Rightarrow> bool \<Rightarrow> real \<Rightarrow> string \<Rightarrow> pyval" where
  "CacheService_get st redis_up now key =
     (if in_tier (local_cache st) now key then live (local_cache st) now key
      else if \<not> redis_connected st then PNone
      else if redis_up then live (redis_store st) now key
      else PNone)"

text \<open>
  \<open>CacheService.set\<close>. A failing \<open>setex\<close> (the server is down, or the expiry is not
  positive) raises \<open>RedisError\<close>; the \<open>except\<close> clause then evaluates
  \<open>json.JSONEncodeError\<close>, which the \<open>json\<close> module does not have, so the call raises
  \<open>AttributeError\<close> instead of returning.
\<close>

datatype set_outcome = Returned bool | Raised

definition CacheService_set ::
  "cache_state \<Rightarrow> bool \<Rightarrow> real \<Rightarrow> string \<Rightarrow> pyval \<Rightarrow> real option \<Rightarrow> set_outcome \<times> cache_state" where
  "CacheService_set st redis_up now key v ttl =
     (if \<not> redis_connected st then (Returned False, st)
      else
        let ttl = py_or ttl (default_ttl st)
        in if redis_up \<and> 0 < ttl
           then (Returned True, st\<lparr>redis_store := (redis_store st)(key \<mapsto> (v, now + ttl))\<rparr>)
           else (Raised, st))"

section \<open>The streaming listener\<close>

text \<open>Source: \<^verbatim>\<open>services/ws_listener.py\<close>, class \<open>WebSocketListener\<close>.\<close>

record ws_state =
  ws_url :: string
  use_testnet_fallback :: bool
  running :: bool
  reconnect_attempts :: nat
  delay :: real

definition mainnet_ws_url :: string where
  "mainnet_ws_url = ''wss://api.hyperliquid.xyz/ws''"

definition testnet_ws_url :: string where
  "testnet_ws_url = ''wss://api.hyperliquid-testnet.xyz/ws''"

definition max_reconnect_attempts :: nat where
  "max_reconnect_attempts = 10"

definition base_delay :: real where
  "base_delay = 1"

definition max_delay :: real where
  "max_delay = 60"

text \<open>
  The listener as \<open>__init__\<close> and \<open>start\<close> leave it when \<open>connect\<close> begins: the primary
  endpoint, no attempt counted, and the local variable \<open>delay\<close> at \<open>base_delay\<close>.
\<close>

definition started_listener :: ws_state where
  "started_listener =
     \<lparr>ws_url = mainnet_ws_url, use_testnet_fallback = False, running = True,
      reconnect_attempts = 0, delay = base_delay\<rparr>"

text \<open>\<open>_handle_reconnection\<close> (the sleep has no effect on the state).\<close>

definition handle_reconnection :: "ws_state \<Rightarrow> ws_state" where
  "handle_reconnection st =
     (let st = st\<lparr>reconnect_attempts := reconnect_attempts st + 1\<rparr>
      in if reconnect_attempts st < max_reconnect_attempts then st else st\<lparr>running := False\<rparr>)"

text \<open>
  What one pass of the loop of \<open>connect\<close> can meet: \<open>websockets.connect\<close> raises; or the
  connection is made and then listening ends with \<open>ConnectionClosed\<close>, with another
  exception, or with the end of the message stream.
\<close>

datatype attempt = ConnectFails | ClosedWhileListening | ErrorWhileListening | StreamEnds

definition connected :: "ws_state \<Rightarrow> ws_state" where
  "connected st = st\<lparr>reconnect_attempts := 0, delay := base_delay\<rparr>"

definition on_connection_closed :: "ws_state \<Rightarrow> ws_state" where
  "on_connection_closed st =
     (let st = handle_reconnection st in st\<lparr>delay := min (delay st * 2) max_delay\<rparr>)"

definition on_exception :: "ws_state \<Rightarrow> ws_state" where
  "on_exception st =
     (let st = (if \<not> use_testnet_fallback st \<and> reconnect_attempts st \<ge> 3
                then st\<lparr>ws_url := testnet_ws_url, use_testnet_fallback := True,
                        reconnect_attempts := 0\<rparr>
                else st);
          st = handle_reconnection st
      in st\<lparr>delay := min (delay st * 2) max_delay\<rparr>)"

definition connect_step :: "ws_state \<Rightarrow> attempt \<Rightarrow> ws_state" where
  "connect_step st a =
     (case a of
        ConnectFails \<Rightarrow> on_exception st
      | ClosedWhileListening \<Rightarrow> on_connection_closed (connected st)
      | ErrorWhileListening \<Rightarrow> on_exception (connected st)
      | StreamEnds \<Rightarrow> connected st)"

text \<open>
  \<open>WebSocketListener.connect\<close>: the loop, run against the outcomes of its successive
  passes; it stops early when \<open>running\<close> is false or the attempt budget is used up.
\<close>

fun connect :: "ws_state \<Rightarrow> attempt list \<Rightarrow> ws_state" where
  "connect st [] = st"
| "connect st (a # rest) =
     (if running st \<and> reconnect_attempts st < max_reconnect_attempts
      then connect (connect_step st a) rest
      else st)"

section \<open>Properties of the square-root model\<close>



lemma sqrt_hundredth: "sqrt (1 / 100) = 1 / 10"
  by (rule real_sqrt_unique) (simp_all add: power2_eq_square)

text \<open>
  C10. An explicit impact coefficient \<open>k = 0\<close> is falsy, so \<open>k or self.config.k_sqrt\<close>
  replaces it by the configured default: the estimate with \<open>k = 0\<close> is the estimate with
  \<open>k\<close> omitted, for every notional, ADV, token and configuration. With the default
  configuration (default \<open>k = 0.7\<close>) that estimate is strictly positive, so asking for
  \<open>k = 0\<close> never yields a zero slippage.
\<close>

theorem estimate_slippage_k_zero_is_default:
  "estimate_slippage_by_notional cfg notional_usd adv_usd (Some 0) token
     = estimate_slippage_by_notional cfg notional_usd adv_usd None token
   \<and> 0 < estimate_slippage_by_notional default_config notional_usd adv_usd (Some 0) token"
proof
  show "estimate_slippage_by_notional cfg notional_usd adv_usd (Some 0) token
     = estimate_slippage_by_notional cfg notional_usd adv_usd None token"
    by (simp add: estimate_slippage_by_notional_def py_or_def)
next
  show "0 < estimate_slippage_by_notional default_config notional_usd adv_usd (Some 0) token"
    by (simp add: estimate_slippage_by_notional_def Let_def default_config_def)
qed

theorem estimate_slippage_k_zero_is_default_witness:
  "estimate_slippage_by_notional default_config 10000 1000000 (Some 0) None = 5 / 100"
proof -
  have "estimate_slippage_by_notional default_config 10000 1000000 None None = 5 / 100"
    by (simp add: estimate_slippage_by_notional_def Let_def default_config_def py_or_def
        token_config_for_def sqrt_hundredth)
  with estimate_slippage_k_zero_is_default [of default_config 10000 1000000 None]
  show ?thesis by simp
qed







section \<open>Properties of the depth walk\<close>

lemma walk_levels_conserve:
  "walk_levels ls r c e = (r', c', e') \<Longrightarrow> r' + e' = r + e"
  by (induction ls r c e rule: walk_levels.induct) (auto simp: Let_def split: if_splits)

lemma walk_levels_remaining_nonneg:
  "walk_levels ls r c e = (r', c', e') \<Longrightarrow> 0 \<le> r \<Longrightarrow> 0 \<le> r'"
  by (induction ls r c e rule: walk_levels.induct) (auto simp: Let_def split: if_splits)





lemma level_fills_prices:
  "f \<in> set (level_fills ls r) \<Longrightarrow> fill_price f \<in> fst ` set ls"
  by (induction ls r rule: level_fills.induct)
     (auto simp: Let_def fill_price_def split: if_splits)








section \<open>Properties of the combined estimate\<close>








section \<open>Properties of the arbitrage detector\<close>






lemma sorted_desc_stable:
  fixes f :: "'a \<Rightarrow> real"
  shows "sorted_wrt (\<lambda>a b. f b \<le> f a) (rev (sort_key f (rev xs)))
       \<and> filter (\<lambda>x. f x = v) (rev (sort_key f (rev xs))) = filter (\<lambda>x. f x = v) xs"
proof
  have "sorted (map f (sort_key f (rev xs)))" by simp
  then have "sorted_wrt (\<lambda>a b. f a \<le> f b) (sort_key f (rev xs))"
    by (simp add: sorted_map)
  then show "sorted_wrt (\<lambda>a b. f b \<le> f a) (rev (sort_key f (rev xs)))"
    by (simp add: sorted_wrt_rev)
next
  have "filter (\<lambda>x. f x = v) (sort_key f (rev xs)) = filter (\<lambda>x. f x = v) (rev xs)"
    by (rule sort_key_stable)
  then show "filter (\<lambda>x. f x = v) (rev (sort_key f (rev xs))) = filter (\<lambda>x. f x = v) xs"
    by (simp add: rev_filter [symmetric])
qed

text \<open>
  C4, as the claim states it, fails in its second half: the sort key is the absolute
  spread alone, and Python's stable sort leaves equal keys in the order of the
  opportunity dict, which is the order of \<open>supported_tokens\<close>. With SOL and ETH both at
  spread 0.5 the list is SOL, ETH, although \<open>'ETH' < 'SOL'\<close>.
\<close>

theorem opportunities_ties_not_by_name:
  "map opp_token (get_arbitrage_opportunities (calculate_arbitrage_opportunities tie_state) None)
     = [''SOL'', ''ETH'']
   \<and> map opp_spread_abs
       (get_arbitrage_opportunities (calculate_arbitrage_opportunities tie_state) None)
     = [1 / 2, 1 / 2]
   \<and> \<not> ties_by_token_name
         (get_arbitrage_opportunities (calculate_arbitrage_opportunities tie_state) None)"
  by (simp add: get_arbitrage_opportunities_def calculate_arbitrage_opportunities_def
      tie_state_def default_supported_tokens_def default_min_spread_threshold_def
      opportunity_for_def perp_price_of_def spot_price_of_def dict_get_def pyval_truthy_def
      Let_def)

text \<open>
  C4, amended. For every state of the opportunity set and every optional \<open>min_spread\<close>,
  the list returned by \<open>get_arbitrage_opportunities\<close> is in descending order of absolute
  spread, and the opportunities of any one absolute spread appear in the order they have
  in the opportunity dict (the order in which the detector stored them, that of
  \<open>supported_tokens\<close>). So the output order is a function of the state, but ties are not
  ordered by token name.
\<close>

theorem opportunities_sorted_stable:
  "sorted_wrt (\<lambda>a b. opp_spread_abs b \<le> opp_spread_abs a)
     (get_arbitrage_opportunities st min_spread)
   \<and> (\<forall>v. filter (\<lambda>opp. opp_spread_abs opp = v) (get_arbitrage_opportunities st min_spread)
          = filter (\<lambda>opp. opp_spread_abs opp = v)
              (case min_spread of
                 None \<Rightarrow> map snd (arbitrage_opportunities st)
               | Some m \<Rightarrow> filter (\<lambda>opp. opp_spread_abs opp \<ge> m)
                            (map snd (arbitrage_opportunities st))))"
  unfolding get_arbitrage_opportunities_def Let_def
  using sorted_desc_stable [of opp_spread_abs] by blast

theorem opportunities_sorted_stable_witness:
  "sorted_wrt (\<lambda>a b. opp_spread_abs b \<le> opp_spread_abs a)
     (get_arbitrage_opportunities (calculate_arbitrage_opportunities tie_state) None)"
  using opportunities_sorted_stable [of "calculate_arbitrage_opportunities tie_state" None]
  by blast

section \<open>Properties of the template store\<close>

lemma default_templates_distinct: "distinct (map name (default_templates now))"
  by (simp add: default_templates_def)

lemma apply_template_op_distinct:
  assumes "distinct (map name ts)" "saves_fresh ts [op]"
  shows "distinct (map name (apply_template_op ts op))"
proof (cases op)
  case (Save now template_data)
  with assms show ?thesis
    by (auto simp: save_execution_template_def split: option.splits)
next
  case (Delete template_name)
  with assms show ?thesis
    by (simp add: delete_execution_template_def distinct_map_filter)
qed

lemma saves_fresh_head: "saves_fresh ts (op # ops) \<Longrightarrow> saves_fresh ts [op]"
  by (cases op) auto

lemma saves_fresh_tail:
  "saves_fresh ts (op # ops) \<Longrightarrow> saves_fresh (apply_template_op ts op) ops"
  by (cases op) auto

text \<open>
  C8, as the claim states it, fails: \<open>save_execution_template\<close> appends the new template
  without looking at the names already stored. Saving a template named
  \<open>SOL Scalping\<close> on the initial store succeeds and leaves two templates of that name.
\<close>

theorem template_names_duplicated:
  "save_execution_template 1 (default_templates 0) duplicate_template_data
     = (True, default_templates 0 @ [the (make_template 1 duplicate_template_data)])
   \<and> map name (apply_template_ops (default_templates 0) [Save 1 duplicate_template_data])
     = [PStr ''SOL Scalping'', PStr ''ETH Conservative'', PStr ''BTC Large Size'',
        PStr ''SOL Scalping'']
   \<and> \<not> distinct (map name (apply_template_ops (default_templates 0)
            [Save 1 duplicate_template_data]))"
  by (simp add: apply_template_ops_def save_execution_template_def default_templates_def
      duplicate_template_data_def make_template_def required_fields_def template_fields_def
      dict_get_def)

text \<open>
  C8, amended. The store does not enforce uniqueness by itself. Starting from a store
  with pairwise distinct names (the initial store is one), the names stay pairwise
  distinct after every sequence of saves and deletes in which each successful save
  brings a name that no stored template has at that moment; and
  \<open>delete_execution_template\<close> removes every template of the given name.
\<close>

theorem template_names_unique_when_saves_fresh:
  assumes "distinct (map name ts)" "saves_fresh ts ops"
  shows "distinct (map name (apply_template_ops ts ops))
       \<and> template_name \<notin> name ` set (snd (delete_execution_template ts template_name))"
proof
  from assms show "distinct (map name (apply_template_ops ts ops))"
    unfolding apply_template_ops_def
  proof (induction ops arbitrary: ts)
    case Nil
    then show ?case by simp
  next
    case (Cons op ops)
    from Cons.prems have "distinct (map name (apply_template_op ts op))"
      by (intro apply_template_op_distinct saves_fresh_head)
    moreover from Cons.prems have "saves_fresh (apply_template_op ts op) ops"
      by (intro saves_fresh_tail)
    ultimately show ?case using Cons.IH by simp
  qed
next
  show "template_name \<notin> name ` set (snd (delete_execution_template ts template_name))"
    by (auto simp: delete_execution_template_def)
qed

theorem template_names_unique_when_saves_fresh_witness:
  "distinct (map name (apply_template_ops (default_templates 0)
       [Save 1 fresh_template_data, Delete (PStr ''ETH Conservative'')]))"
proof -
  have f: "saves_fresh (default_templates 0)
       [Save 1 fresh_template_data, Delete (PStr ''ETH Conservative'')]"
    by (simp add: default_templates_def fresh_template_data_def make_template_def
        required_fields_def template_fields_def dict_get_def save_execution_template_def)
  from template_names_unique_when_saves_fresh [OF default_templates_distinct f]
  show ?thesis by simp
qed

section \<open>Properties of the Monte Carlo entry point\<close>

text \<open>
  C1, as the claim states it, fails: the code caps the requested count with
  \<open>min(n_sims, 5000)\<close> and has no lower clamp. A call with \<open>n_sims = 0\<close> (prices and
  funding rate supplied) does not report a count clamped up to 1: the empty sample arrays
  raise in numpy, and the result is the error payload, which reports the sample count 0.
\<close>

theorem monte_carlo_zero_samples:
  "simulate_bridge_execution_monte_carlo None ''SOL'' 1000 None 0 (Some 100) (Some 101)
       (Some (1 / 10000))
     = Inl \<lparr>err_token = ''SOL'', err_notional_usd = 1000, err_n_sims = 0\<rparr>"
  by (simp add: simulate_bridge_execution_monte_carlo_def resolve_market_data_def opt_val_def
      is_number_def Let_def)

text \<open>
  C1, amended. Whenever the call returns statistics, the \<open>n_simulations\<close> it reports
  equals \<open>min(n, 5000)\<close> and lies in [1, 5000], and \<open>sample_draws\<close> has
  \<open>min(10, n_simulations)\<close> entries. There is no clamp from below: every call with
  \<open>n \<le> 0\<close> returns the error payload, whose \<open>n_sims\<close> is the unclamped \<open>n\<close>. Statistics
  are returned for every \<open>n \<ge> 1\<close> when no template is named and both prices (the
  Jupiter one non-zero) and the funding rate are supplied.
\<close>

theorem monte_carlo_sample_count:
  "(\<forall>stats. simulate_bridge_execution_monte_carlo arbitrage_service token notional_usd template
              n_sims jupiter_price hyperliquid_price funding_rate = Inr stats
        \<longrightarrow> n_simulations stats = min n_sims 5000
          \<and> 1 \<le> n_simulations stats \<and> n_simulations stats \<le> 5000
          \<and> n_sample_draws stats = min 10 (n_simulations stats))
   \<and> (n_sims \<le> 0
        \<longrightarrow> simulate_bridge_execution_monte_carlo arbitrage_service token notional_usd template
              n_sims jupiter_price hyperliquid_price funding_rate
            = Inl \<lparr>err_token = token, err_notional_usd = notional_usd, err_n_sims = n_sims\<rparr>)
   \<and> (1 \<le> n_sims \<and> j \<noteq> 0
        \<longrightarrow> simulate_bridge_execution_monte_carlo arbitrage_service token notional_usd None
              n_sims (Some j) (Some h) (Some f)
            = Inr \<lparr>n_simulations = min n_sims 5000, n_sample_draws = min 10 n_sims\<rparr>)"
proof (intro conjI allI impI)
  fix stats
  assume "simulate_bridge_execution_monte_carlo arbitrage_service token notional_usd template
              n_sims jupiter_price hyperliquid_price funding_rate = Inr stats"
  then have "stats = \<lparr>n_simulations = min n_sims 5000, n_sample_draws = min 10 (min n_sims 5000)\<rparr>
      \<and> 0 < min n_sims 5000"
    by (auto simp: simulate_bridge_execution_monte_carlo_def Let_def
        split: prod.splits if_splits)
  then show "n_simulations stats = min n_sims 5000" "1 \<le> n_simulations stats"
    "n_simulations stats \<le> 5000" "n_sample_draws stats = min 10 (n_simulations stats)"
    by auto
next
  assume "n_sims \<le> 0"
  then show "simulate_bridge_execution_monte_carlo arbitrage_service token notional_usd template
              n_sims jupiter_price hyperliquid_price funding_rate
            = Inl \<lparr>err_token = token, err_notional_usd = notional_usd, err_n_sims = n_sims\<rparr>"
    by (auto simp: simulate_bridge_execution_monte_carlo_def Let_def split: prod.splits)
next
  assume "1 \<le> n_sims \<and> j \<noteq> 0"
  then show "simulate_bridge_execution_monte_carlo arbitrage_service token notional_usd None
              n_sims (Some j) (Some h) (Some f)
            = Inr \<lparr>n_simulations = min n_sims 5000, n_sample_draws = min 10 n_sims\<rparr>"
    by (auto simp: simulate_bridge_execution_monte_carlo_def resolve_market_data_def
        opt_val_def is_number_def Let_def)
qed

theorem monte_carlo_sample_count_witness:
  "simulate_bridge_execution_monte_carlo None ''SOL'' 1000 None 10000 (Some 100) (Some 101)
       (Some (1 / 10000))
     = Inr \<lparr>n_simulations = 5000, n_sample_draws = 10\<rparr>"
  using monte_carlo_sample_count [of None "''SOL''" 1000 None 10000 "Some 100" "Some 101"
      "Some (1 / 10000)" 100 101 "1 / 10000"]
  by simp

section \<open>Properties of the cache\<close>

text \<open>
  C2 does not hold of the code. \<open>CacheService.set\<close> never writes the local tier, and with
  the remote tier not connected it returns \<open>False\<close> at once and stores nothing: on a
  cache built while Redis is unreachable, for every key, value and TTL, \<open>set\<close> leaves the
  state as it was and a following \<open>get\<close> of the key returns \<open>None\<close>, at any instant.
\<close>

theorem cache_set_disconnected_is_lost:
  "CacheService_set (init_cache False remote) redis_up now key v ttl
     = (Returned False, init_cache False remote)
   \<and> CacheService_get (snd (CacheService_set (init_cache False remote) redis_up now key v ttl))
       redis_up' now' key = PNone
   \<and> local_cache (snd (CacheService_set st redis_up now key v ttl)) = local_cache st"
  by (simp add: CacheService_set_def CacheService_get_def init_cache_def in_tier_def Let_def)

section \<open>Properties of the streaming listener\<close>

text \<open>
  C9 does not hold of the code in its second half. After three consecutive connection
  failures the listener is still on the primary endpoint with the counter at 3. The handler
  of the fourth failure switches to the secondary endpoint and sets the counter to 0, and
  then calls \<open>_handle_reconnection\<close>, which counts the failure: when the handler is done
  the endpoint is the secondary one and the counter is 1.
\<close>

theorem listener_four_failures:
  "connect started_listener [ConnectFails, ConnectFails, ConnectFails]
     = \<lparr>ws_url = mainnet_ws_url, use_testnet_fallback = False, running = True,
        reconnect_attempts = 3, delay = 8\<rparr>
   \<and> connect started_listener [ConnectFails, ConnectFails, ConnectFails, ConnectFails]
     = \<lparr>ws_url = testnet_ws_url, use_testnet_fallback = True, running = True,
        reconnect_attempts = 1, delay = 16\<rparr>"
  by (simp add: started_listener_def connect_step_def on_exception_def handle_reconnection_def
      max_reconnect_attempts_def base_delay_def max_delay_def Let_def)

end
